theory Spec2Isabelle
  imports Complex_Main "HOL-Library.Sublist"
begin

section \<open>Disk usage probe\<close>

text \<open>
  The file tree is a list of directory entries. A path is the list of its components.
  An entry records whether \<open>is_file()\<close> holds for it and its \<open>st_size\<close>.
\<close>

type_synonym path = "string list"

record node =
  n_path :: path
  n_is_file :: bool
  n_size :: nat

type_synonym filesystem = "node list"

text \<open>\<open>folder.rglob('*')\<close>: every entry strictly below \<open>folder\<close>.\<close>

definition rglob :: "filesystem \<Rightarrow> path \<Rightarrow> node list" where
  "rglob fs folder = filter (\<lambda>n. strict_prefix folder (n_path n)) fs"

text \<open>The byte total that \<open>get_disk_usage\<close> sums before it divides and rounds.\<close>

definition disk_bytes :: "filesystem \<Rightarrow> path \<Rightarrow> nat" where
  "disk_bytes fs folder = sum_list (map n_size (filter n_is_file (rglob fs folder)))"

text \<open>
  Python's \<open>round(x, 2)\<close> rounds to the nearest hundredth, a tie going to the even
  hundredth. Floats are modelled by the real numbers they stand for.
\<close>

definition round_half_even :: "real \<Rightarrow> int" where
  "round_half_even x =
     (let f = \<lfloor>x\<rfloor>; d = x - of_int f
      in if d < 1 / 2 then f
         else if 1 / 2 < d then f + 1
         else if even f then f else f + 1)"

definition round2 :: "real \<Rightarrow> real" where
  "round2 x = of_int (round_half_even (x * 100)) / 100"

definition get_disk_usage :: "filesystem \<Rightarrow> path \<Rightarrow> real" where
  "get_disk_usage fs folder = round2 (of_nat (disk_bytes fs folder) / 1024 ^ 3)"

section \<open>Errors\<close>

datatype phase = Before_start | During_run

datatype reason = Node_space_unreadable | Child_stderr string

datatype error =
    DiskSpaceExceeded phase
  | TimeoutExpired
  | HTTPException reason
  | OSError

section \<open>Node capacity\<close>

text \<open>
  \<open>df\<close> is what \<open>int(subprocess.getoutput(...).split("G")[0])\<close> evaluates to:
  \<open>None\<close> when \<open>int\<close> raises \<open>ValueError\<close>. \<open>base\<close> is \<open>configs.BASE_PATH\<close>,
  the default folder of \<open>get_disk_usage\<close>.
\<close>

definition check_available_node_space ::
  "path \<Rightarrow> int option \<Rightarrow> filesystem \<Rightarrow> real \<Rightarrow> error + real" where
  "check_available_node_space base df fs limit_gb =
     (case df of
        None \<Rightarrow> Inl (HTTPException Node_space_unreadable)
      | Some free_gb \<Rightarrow>
          (let available_gb = max (free_gb - 3) 0;
               current_gb = get_disk_usage fs base;
               leftover_gb = round2 (limit_gb - current_gb)
           in if leftover_gb < of_int available_gb then Inr limit_gb
              else Inr (round2 (current_gb + of_int available_gb))))"

section \<open>Child processes, monitor threads and the module state\<close>

text \<open>
  What the command does once it is started, as far as \<open>run_subprocess\<close> can tell:
  whether \<open>Popen\<close> succeeds, after how many seconds the child exits by itself (\<open>None\<close>:
  never), its return code and standard error, and whether SIGTERM ends it.
\<close>

record child =
  c_spawns :: bool
  c_runtime :: "nat option"
  c_returncode :: int
  c_stderr :: string
  c_dies_on_sigterm :: bool

text \<open>
  A \<open>Popen\<close> object with the operating-system process behind it. \<open>p_returncode\<close> is
  the attribute \<open>returncode\<close>, set once the child has been waited for.
\<close>

record proc =
  p_command :: "string list"
  p_returncode :: "int option"
  p_alive :: bool
  p_sigterm :: bool
  p_dies_on_sigterm :: bool

text \<open>A thread running \<open>monitor_disk_space(limit_gb, path_to_check)\<close>.\<close>

record monitor =
  m_limit :: real
  m_path :: path
  m_running :: bool

text \<open>
  \<open>stop_thread\<close> is the module-level \<open>threading.Event\<close>. \<open>monitors\<close> and \<open>procs\<close> hold
  every monitor thread and every child started so far, in order of creation.
  \<open>printed\<close> holds the lines of \<open>log_disk_usage\<close>: the message and the figure.
\<close>

record state =
  stop_thread :: bool
  monitors :: "monitor list"
  procs :: "proc list"
  printed :: "(string \<times> real) list"

definition log_disk_usage :: "path \<Rightarrow> filesystem \<Rightarrow> string \<Rightarrow> state \<Rightarrow> state" where
  "log_disk_usage base fs process_message s =
     s\<lparr>printed := printed s @ [(process_message, get_disk_usage fs base)]\<rparr>"

text \<open>
  One round of the loop of \<open>monitor_disk_space\<close>, after \<open>time.sleep(3)\<close> has returned,
  on the file tree \<open>fs\<close> of that moment. The result says whether \<open>stop_thread.set()\<close>
  was called; after \<open>sys.exit()\<close> the thread no longer runs.
\<close>

definition monitor_disk_space_round :: "filesystem \<Rightarrow> monitor \<Rightarrow> bool \<times> monitor" where
  "monitor_disk_space_round fs m =
     (let stored_gb = get_disk_usage fs (m_path m)
      in if stored_gb \<ge> m_limit m then (True, m\<lparr>m_running := False\<rparr>) else (False, m))"

text \<open>
  The scheduler: \<open>Tick i fs\<close> is monitor thread \<open>i\<close> waking up when the file tree is
  \<open>fs\<close>. A thread that has exited, or was never started, does nothing.
\<close>

datatype event = Tick nat filesystem

fun tick :: "state \<Rightarrow> event \<Rightarrow> state" where
  "tick s (Tick i fs) =
     (if i < length (monitors s) \<and> m_running (monitors s ! i) then
        (case monitor_disk_space_round fs (monitors s ! i) of
           (breach, m') \<Rightarrow>
             s\<lparr>stop_thread := (if breach then True else stop_thread s),
               monitors := (monitors s)[i := m']\<rparr>)
      else s)"

definition ticks :: "state \<Rightarrow> event list \<Rightarrow> state" where
  "ticks s evs = foldl tick s evs"

text \<open>\<open>subprocess.Popen(command, ...)\<close> when it succeeds.\<close>

definition popen :: "string list \<Rightarrow> child \<Rightarrow> proc" where
  "popen command c =
     \<lparr>p_command = command, p_returncode = None, p_alive = True, p_sigterm = False,
      p_dies_on_sigterm = c_dies_on_sigterm c\<rparr>"

text \<open>\<open>process.wait(timeout=timeout)\<close>: the return code, or \<open>None\<close> for \<open>TimeoutExpired\<close>.\<close>

definition process_wait :: "child \<Rightarrow> nat \<Rightarrow> int option" where
  "process_wait c timeout =
     (case c_runtime c of
        None \<Rightarrow> None
      | Some d \<Rightarrow> if d \<le> timeout then Some (c_returncode c) else None)"

definition reaped :: "int \<Rightarrow> proc \<Rightarrow> proc" where
  "reaped return_code p = p\<lparr>p_returncode := Some return_code, p_alive := False\<rparr>"

text \<open>
  \<open>process.terminate()\<close>: nothing when the return code is known, otherwise SIGTERM
  is sent, and nothing waits for the child.
\<close>

definition process_terminate :: "proc \<Rightarrow> proc" where
  "process_terminate p =
     (if p_returncode p \<noteq> None then p
      else p\<lparr>p_sigterm := True, p_alive := (p_alive p \<and> \<not> p_dies_on_sigterm p)\<rparr>)"

definition on_proc :: "nat \<Rightarrow> (proc \<Rightarrow> proc) \<Rightarrow> state \<Rightarrow> state" where
  "on_proc pid f s = s\<lparr>procs := (procs s)[pid := f (procs s ! pid)]\<rparr>"

section \<open>The bounded process runner\<close>

text \<open>
  What happens around one call and is not decided by the code: the parsed output of
  \<open>df\<close>, the file tree while the call prepares, the behaviour of the child, the monitor
  wake-ups between \<open>monitor_thread.start()\<close> and the test of \<open>stop_thread\<close>
  (or the timeout), and the file tree when \<open>wait\<close> is over.
\<close>

record env =
  e_df :: "int option"
  e_fs :: filesystem
  e_child :: child
  e_ticks :: "event list"
  e_fs_end :: filesystem

definition start_monitor :: "real \<Rightarrow> path \<Rightarrow> state \<Rightarrow> state" where
  "start_monitor limit_gb path_to_check s =
     s\<lparr>monitors := monitors s @
        [\<lparr>m_limit = limit_gb, m_path = path_to_check, m_running = True\<rparr>]\<rparr>"

text \<open>The \<open>try\<close> block with its two handlers, from \<open>Popen\<close> on.\<close>

definition run_child ::
  "path \<Rightarrow> env \<Rightarrow> string list \<Rightarrow> string \<Rightarrow> nat \<Rightarrow> state \<Rightarrow> (error + unit) \<times> state" where
  "run_child base env command process_message timeout s =
     (let pid = length (procs s);
          s3 = s\<lparr>procs := procs s @ [popen command (e_child env)]\<rparr>;
          s4 = ticks s3 (e_ticks env)
      in case process_wait (e_child env) timeout of
           None \<Rightarrow> (Inl TimeoutExpired, on_proc pid process_terminate s4)
         | Some return_code \<Rightarrow>
             (let s5 = on_proc pid (reaped return_code) s4
              in if stop_thread s5 then
                   (Inl (DiskSpaceExceeded During_run),
                    on_proc pid process_terminate
                      (log_disk_usage base (e_fs_end env) (''FAILED: '' @ process_message) s5))
                 else if return_code = 0 then
                   (Inr (),
                    log_disk_usage base (e_fs_end env) (''Finished: '' @ process_message) s5)
                 else
                   (Inl (HTTPException (Child_stderr (c_stderr (e_child env)))),
                    on_proc pid process_terminate s5)))"

definition run_subprocess ::
  "path \<Rightarrow> env \<Rightarrow> string list \<Rightarrow> string \<Rightarrow> real \<Rightarrow> path \<Rightarrow> nat \<Rightarrow> state
     \<Rightarrow> (error + unit) \<times> state" where
  "run_subprocess base env command process_message limit_gb path_to_check timeout s =
     (let s1 = log_disk_usage base (e_fs env) (''Begin: '' @ process_message) s
      in case check_available_node_space base (e_df env) (e_fs env) limit_gb of
           Inl e \<Rightarrow> (Inl e, s1)
         | Inr limit \<Rightarrow>
             if get_disk_usage (e_fs env) path_to_check > limit then
               (Inl (DiskSpaceExceeded Before_start),
                log_disk_usage base (e_fs env) (''FAILED: '' @ process_message) s1)
             else
               (let s2 = start_monitor limit path_to_check s1
                in if c_spawns (e_child env)
                   then run_child base env command process_message timeout s2
                   else (Inl OSError, s2)))"

section \<open>Observations on a run\<close>

text \<open>
  \<open>saw_breach i limit_gb path_to_check ev\<close>: the wake-up \<open>ev\<close> is a round of monitor
  thread \<open>i\<close>, and the usage it samples is at or above the limit.
\<close>

fun saw_breach :: "nat \<Rightarrow> real \<Rightarrow> path \<Rightarrow> event \<Rightarrow> bool" where
  "saw_breach i limit_gb path_to_check (Tick j fs) =
     (j = i \<and> get_disk_usage fs path_to_check \<ge> limit_gb)"

section \<open>Scenarios\<close>

text \<open>Concrete file trees, children and calls on which the theorems below are run.\<close>

definition base0 :: path where
  "base0 = [''srv'']"

definition data0 :: path where
  "data0 = [''srv'', ''data'']"

definition regular :: "path \<Rightarrow> nat \<Rightarrow> node" where
  "regular p n = \<lparr>n_path = p, n_is_file = True, n_size = n\<rparr>"

definition folder :: "path \<Rightarrow> node" where
  "folder p = \<lparr>n_path = p, n_is_file = False, n_size = 4096\<rparr>"

text \<open>1 GB of data and 4 GB of models below \<open>srv\<close>.\<close>

definition tree_low :: filesystem where
  "tree_low =
     [folder [''srv'', ''data''], regular [''srv'', ''data'', ''a.tar.zst''] (1 * 1024 ^ 3),
      folder [''srv'', ''models''], regular [''srv'', ''models'', ''latest.pth''] (4 * 1024 ^ 3)]"

text \<open>12 GB of data below \<open>srv/data\<close>.\<close>

definition tree_high :: filesystem where
  "tree_high =
     [folder [''srv'', ''data''], regular [''srv'', ''data'', ''a.tar.zst''] (1 * 1024 ^ 3),
      regular [''srv'', ''data'', ''a.npy''] (11 * 1024 ^ 3)]"

definition child_ok :: child where
  "child_ok = \<lparr>c_spawns = True, c_runtime = Some 20, c_returncode = 0, c_stderr = [],
               c_dies_on_sigterm = True\<rparr>"

definition initial :: state where
  "initial = \<lparr>stop_thread = False, monitors = [], procs = [], printed = []\<rparr>"

definition tar_command :: "string list" where
  "tar_command = [''tar'', ''-I'', ''zstd'', ''-xf'', ''a.tar.zst'', ''-C'', ''srv/data'']"

definition env_full :: env where
  "env_full = \<lparr>e_df = Some 50, e_fs = tree_high, e_child = child_ok, e_ticks = [],
               e_fs_end = tree_high\<rparr>"

definition env_breach :: env where
  "env_breach = \<lparr>e_df = Some 50, e_fs = tree_low, e_child = child_ok,
                 e_ticks = [Tick 0 tree_low, Tick 0 tree_high], e_fs_end = tree_high\<rparr>"

text \<open>A child that never exits by itself and ignores SIGTERM.\<close>

definition child_hang :: child where
  "child_hang = \<lparr>c_spawns = True, c_runtime = None, c_returncode = 0, c_stderr = [],
                 c_dies_on_sigterm = False\<rparr>"

definition sleep_command :: "string list" where
  "sleep_command = [''python3'', ''ignore_sigterm_and_sleep.py'']"

definition env_calm :: env where
  "env_calm = \<lparr>e_df = Some 50, e_fs = tree_low, e_child = child_ok,
               e_ticks = [Tick 0 tree_low], e_fs_end = tree_low\<rparr>"

definition env_hang :: env where
  "env_hang = \<lparr>e_df = Some 50, e_fs = tree_low, e_child = child_hang,
               e_ticks = [Tick 0 tree_low], e_fs_end = tree_low\<rparr>"

text \<open>A second call after \<open>env_breach\<close>: its monitor is thread 1, the usage stays at 1 GB.\<close>

definition env_later :: env where
  "env_later = \<lparr>e_df = Some 50, e_fs = tree_low, e_child = child_ok,
                e_ticks = [Tick 1 tree_low], e_fs_end = tree_low\<rparr>"

text \<open>Only the 1 GB of data; and the 5 GB of \<open>tree_low\<close> laid out differently.\<close>

definition tree_data_only :: filesystem where
  "tree_data_only =
     [folder [''srv'', ''data''], regular [''srv'', ''data'', ''a.tar.zst''] (1 * 1024 ^ 3)]"

definition tree_moved :: filesystem where
  "tree_moved =
     [folder [''srv'', ''data''], regular [''srv'', ''data'', ''b.npy''] (1 * 1024 ^ 3),
      regular [''srv'', ''latest.pth''] (4 * 1024 ^ 3)]"

text \<open>1 GB and 5 000 000 bytes of data; the limit of the call is 1 GB.\<close>

definition tree_over :: filesystem where
  "tree_over =
     [folder [''srv'', ''data''],
      regular [''srv'', ''data'', ''a.npy''] (1024 ^ 3 + 5000000)]"

definition env_over :: env where
  "env_over = \<lparr>e_df = Some 50, e_fs = tree_over, e_child = child_ok, e_ticks = [],
               e_fs_end = tree_over\<rparr>"

text \<open>Exactly 10 GB of data; the limit of the call is 10 GB.\<close>

definition tree_edge :: filesystem where
  "tree_edge =
     [folder [''srv'', ''data''], regular [''srv'', ''data'', ''a.npy''] (10 * 1024 ^ 3)]"

definition env_edge :: env where
  "env_edge = \<lparr>e_df = Some 50, e_fs = tree_edge, e_child = child_ok,
               e_ticks = [Tick 0 tree_edge], e_fs_end = tree_edge\<rparr>"

text \<open>A state in which \<open>stop_thread\<close> is set and the monitor that set it has exited.\<close>

definition flagged :: state where
  "flagged = \<lparr>stop_thread = True,
              monitors = [\<lparr>m_limit = 10, m_path = data0, m_running = False\<rparr>],
              procs = [], printed = []\<rparr>"

section \<open>Basic facts\<close>

lemmas usage_defs = get_disk_usage_def disk_bytes_def rglob_def round2_def round_half_even_def
  Let_def regular_def folder_def

lemma ticks_Nil [simp]: "ticks s [] = s"
  by (simp add: ticks_def)

lemma ticks_Cons [simp]: "ticks s (ev # evs) = ticks (tick s ev) evs"
  by (simp add: ticks_def)

lemma tick_procs [simp]: "procs (tick s ev) = procs s"
  by (cases ev) (simp split: prod.split)

lemma tick_printed [simp]: "printed (tick s ev) = printed s"
  by (cases ev) (simp split: prod.split)

lemma tick_length_monitors [simp]: "length (monitors (tick s ev)) = length (monitors s)"
  by (cases ev) (simp split: prod.split)

lemma ticks_procs [simp]: "procs (ticks s evs) = procs s"
  by (induction evs arbitrary: s) simp_all

lemma ticks_printed [simp]: "printed (ticks s evs) = printed s"
  by (induction evs arbitrary: s) simp_all

lemma ticks_length_monitors [simp]: "length (monitors (ticks s evs)) = length (monitors s)"
  by (induction evs arbitrary: s) simp_all

text \<open>The monitor threads neither read the children nor the printed lines.\<close>

lemma tick_procs_update: "tick (s\<lparr>procs := ps\<rparr>) ev = (tick s ev)\<lparr>procs := ps\<rparr>"
  by (cases ev) (simp split: prod.split)

lemma tick_printed_update: "tick (s\<lparr>printed := ps\<rparr>) ev = (tick s ev)\<lparr>printed := ps\<rparr>"
  by (cases ev) (simp split: prod.split)

lemma ticks_procs_update: "ticks (s\<lparr>procs := ps\<rparr>) evs = (ticks s evs)\<lparr>procs := ps\<rparr>"
  by (induction evs arbitrary: s) (simp_all add: tick_procs_update)

lemma ticks_printed_update:
  "ticks (s\<lparr>printed := ps\<rparr>) evs = (ticks s evs)\<lparr>printed := ps\<rparr>"
  by (induction evs arbitrary: s) (simp_all add: tick_printed_update)

text \<open>A monitor round can set the flag and cannot clear it.\<close>

lemma tick_keeps_flag: "stop_thread s \<Longrightarrow> stop_thread (tick s ev)"
  by (cases ev) (simp split: prod.split)

lemma ticks_keep_flag: "stop_thread s \<Longrightarrow> stop_thread (ticks s evs)"
  by (induction evs arbitrary: s) (simp_all add: tick_keeps_flag)

section \<open>Rounding to two decimals\<close>

lemma round_half_even_close: "\<bar>of_int (round_half_even x) - x\<bar> \<le> 1 / 2"
proof -
  have "of_int \<lfloor>x\<rfloor> \<le> x" "x < of_int \<lfloor>x\<rfloor> + 1"
    by linarith+
  then show ?thesis
    by (simp add: round_half_even_def Let_def)
qed

lemma round_half_even_of_int [simp]: "round_half_even (of_int k) = k"
  by (simp add: round_half_even_def)

lemma round2_close: "\<bar>round2 x - x\<bar> \<le> 1 / 200"
proof -
  have "\<bar>of_int (round_half_even (x * 100)) - x * 100\<bar> \<le> 1 / 2"
    by (rule round_half_even_close)
  then show ?thesis
    by (simp add: round2_def field_simps abs_le_iff)
qed

lemma round2_hundredth [simp]: "round2 (of_int k / 100) = of_int k / 100"
  by (simp add: round2_def)

lemma round2_is_hundredth: "\<exists>k. round2 x = of_int k / 100"
  by (auto simp: round2_def)

lemma get_disk_usage_hundredth: "\<exists>k. get_disk_usage fs p = of_int k / 100"
  unfolding get_disk_usage_def by (rule round2_is_hundredth)

lemma round2_sum_hundredths [simp]:
  "round2 (of_int k / 100 + of_int a) = of_int k / 100 + of_int a"
proof -
  have "of_int k / 100 + of_int a = (of_int (k + 100 * a) / 100 :: real)"
    by simp
  then show ?thesis
    by (simp only: round2_hundredth)
qed

lemma round2_diff_hundredths [simp]:
  "round2 (of_int q / 100 - of_int k / 100) = of_int q / 100 - of_int k / 100"
proof -
  have "of_int q / 100 - of_int k / 100 = (of_int (q - k) / 100 :: real)"
    by (simp add: diff_divide_distrib)
  then show ?thesis
    by (simp only: round2_hundredth)
qed

section \<open>The runner once the child is launched\<close>

lemma run_child_stop_thread:
  "stop_thread (snd (run_child base env command process_message timeout s))
     = stop_thread (ticks s (e_ticks env))"
  by (simp add: run_child_def Let_def ticks_procs_update on_proc_def log_disk_usage_def
      split: option.split)

lemma run_child_monitors:
  "monitors (snd (run_child base env command process_message timeout s))
     = monitors (ticks s (e_ticks env))"
  by (simp add: run_child_def Let_def ticks_procs_update on_proc_def log_disk_usage_def
      split: option.split)

lemma start_monitor_logged:
  "start_monitor limit p (log_disk_usage base fs msg s)
     = (start_monitor limit p s)\<lparr>printed := printed s @ [(msg, get_disk_usage fs base)]\<rparr>"
  by (simp add: start_monitor_def log_disk_usage_def)

lemma run_subprocess_launched:
  assumes "check_available_node_space base (e_df env) (e_fs env) limit_gb = Inr limit"
    and "\<not> get_disk_usage (e_fs env) path_to_check > limit"
    and "c_spawns (e_child env)"
  shows "run_subprocess base env command process_message limit_gb path_to_check timeout s
           = run_child base env command process_message timeout
               (start_monitor limit path_to_check
                  (log_disk_usage base (e_fs env) (''Begin: '' @ process_message) s))"
  using assms by (simp add: run_subprocess_def Let_def)

lemma run_subprocess_stop_thread:
  assumes "check_available_node_space base (e_df env) (e_fs env) limit_gb = Inr limit"
    and "\<not> get_disk_usage (e_fs env) path_to_check > limit"
    and "c_spawns (e_child env)"
  shows "stop_thread (snd (run_subprocess base env command process_message limit_gb
            path_to_check timeout s))
         = stop_thread (ticks (start_monitor limit path_to_check s) (e_ticks env))"
  by (simp add: run_subprocess_launched [OF assms] run_child_stop_thread start_monitor_logged
      ticks_printed_update)

lemma run_subprocess_monitors:
  assumes "check_available_node_space base (e_df env) (e_fs env) limit_gb = Inr limit"
    and "\<not> get_disk_usage (e_fs env) path_to_check > limit"
    and "c_spawns (e_child env)"
  shows "monitors (snd (run_subprocess base env command process_message limit_gb
            path_to_check timeout s))
         = monitors (ticks (start_monitor limit path_to_check s) (e_ticks env))"
  by (simp add: run_subprocess_launched [OF assms] run_child_monitors start_monitor_logged
      ticks_printed_update)

lemma run_subprocess_keeps_flag:
  assumes "stop_thread s"
  shows "stop_thread (snd (run_subprocess base env command process_message limit_gb
            path_to_check timeout s))"
proof -
  have "stop_thread (ticks (start_monitor limit path_to_check
      (log_disk_usage base (e_fs env) (''Begin: '' @ process_message) s)) (e_ticks env))"
    for limit
    using assms by (intro ticks_keep_flag) (simp add: start_monitor_def log_disk_usage_def)
  then show ?thesis
    using assms
    by (simp add: run_subprocess_def Let_def run_child_stop_thread log_disk_usage_def
        start_monitor_def split: sum.split)
qed

lemma tick_monitor_static:
  assumes "i < length (monitors s)"
  shows "m_limit (monitors (tick s ev) ! i) = m_limit (monitors s ! i)
       \<and> m_path (monitors (tick s ev) ! i) = m_path (monitors s ! i)"
proof (cases ev)
  case (Tick j fs)
  with assms show ?thesis
    by (cases "j = i") (simp_all add: monitor_disk_space_round_def Let_def)
qed

lemma tick_running:
  assumes "i < length (monitors s)"
  shows "m_running (monitors (tick s ev) ! i)
         = (m_running (monitors s ! i)
            \<and> \<not> saw_breach i (m_limit (monitors s ! i)) (m_path (monitors s ! i)) ev)"
proof (cases ev)
  case (Tick j fs)
  with assms show ?thesis
    by (cases "j = i") (auto simp: monitor_disk_space_round_def Let_def)
qed

lemma ticks_running:
  assumes "i < length (monitors s)"
  shows "m_running (monitors (ticks s evs) ! i)
         = (m_running (monitors s ! i)
            \<and> \<not> list_ex (saw_breach i (m_limit (monitors s ! i)) (m_path (monitors s ! i))) evs)"
  using assms
proof (induction evs arbitrary: s)
  case Nil
  then show ?case by simp
next
  case (Cons ev evs)
  have "i < length (monitors (tick s ev))"
    using Cons.prems by simp
  from Cons.IH [OF this] show ?case
    using tick_monitor_static [OF Cons.prems, of ev] tick_running [OF Cons.prems, of ev]
    by auto
qed

lemma run_subprocess_procs_launched:
  assumes "check_available_node_space base (e_df env) (e_fs env) limit_gb = Inr limit"
    and "\<not> get_disk_usage (e_fs env) path_to_check > limit"
    and "c_spawns (e_child env)"
  shows "procs (snd (run_subprocess base env command process_message limit_gb
            path_to_check timeout s))
         = procs s @
           [case process_wait (e_child env) timeout of
              None \<Rightarrow> process_terminate (popen command (e_child env))
            | Some return_code \<Rightarrow> reaped return_code (popen command (e_child env))]"
  by (simp add: run_subprocess_launched [OF assms] run_child_def Let_def on_proc_def
      log_disk_usage_def start_monitor_def process_terminate_def reaped_def
      split: option.split)

text \<open>The resolver reads the file tree through the usage of \<open>base\<close> alone.\<close>

lemma resolver_reads_base_usage:
  assumes "get_disk_usage fs' base = get_disk_usage fs base"
  shows "check_available_node_space base df fs' limit_gb
         = check_available_node_space base df fs limit_gb"
  using assms by (cases df) (simp_all add: check_available_node_space_def)

text \<open>A call that starts with the flag set, and whose child exits in time.\<close>

lemma flagged_call_fails:
  assumes "stop_thread s"
    and "check_available_node_space base (e_df env) (e_fs env) limit_gb = Inr limit"
    and "\<not> get_disk_usage (e_fs env) path_to_check > limit"
    and "c_spawns (e_child env)"
    and "process_wait (e_child env) timeout = Some return_code"
  shows "fst (run_subprocess base env command process_message limit_gb path_to_check
      timeout s) = Inl (DiskSpaceExceeded During_run)"
proof -
  have "stop_thread (ticks (start_monitor limit path_to_check
      (log_disk_usage base (e_fs env) (''Begin: '' @ process_message) s)
      \<lparr>procs := ps\<rparr>) (e_ticks env))" for ps
    using assms(1) by (intro ticks_keep_flag) (simp add: start_monitor_def log_disk_usage_def)
  then show ?thesis
    using assms(5)
    by (simp add: run_subprocess_launched [OF assms(2-4)] run_child_def Let_def on_proc_def)
qed

lemmas run_defs = run_subprocess_def run_child_def check_available_node_space_def
  log_disk_usage_def start_monitor_def on_proc_def popen_def process_wait_def reaped_def
  process_terminate_def monitor_disk_space_round_def

section \<open>Pre-flight check\<close>

text \<open>
  Claim C1. When the usage of \<open>path_to_check\<close> is strictly above the limit that
  \<open>check_available_node_space\<close> resolved, \<open>run_subprocess\<close> raises \<open>DiskSpaceExceeded\<close>
  from the check before the \<open>try\<close> block, and neither a child nor a monitor thread has
  been started.
\<close>

theorem preflight_exceeded_no_child:
  assumes "check_available_node_space base (e_df env) (e_fs env) limit_gb = Inr limit"
    and "get_disk_usage (e_fs env) path_to_check > limit"
  shows "fst (run_subprocess base env command process_message limit_gb path_to_check timeout s)
           = Inl (DiskSpaceExceeded Before_start)
       \<and> procs (snd (run_subprocess base env command process_message limit_gb path_to_check
             timeout s)) = procs s
       \<and> monitors (snd (run_subprocess base env command process_message limit_gb path_to_check
             timeout s)) = monitors s"
  using assms by (simp add: run_subprocess_def log_disk_usage_def)

theorem preflight_exceeded_no_child_witness:
  "check_available_node_space base0 (e_df env_full) (e_fs env_full) 10 = Inr 10
   \<and> get_disk_usage (e_fs env_full) data0 > 10
   \<and> fst (run_subprocess base0 env_full tar_command ''unpacking'' 10 data0 500 initial)
        = Inl (DiskSpaceExceeded Before_start)
   \<and> procs (snd (run_subprocess base0 env_full tar_command ''unpacking'' 10 data0 500 initial))
        = []"
proof -
  have h1: "check_available_node_space base0 (e_df env_full) (e_fs env_full) 10 = Inr 10"
    by (simp add: env_full_def usage_defs tree_high_def base0_def
        check_available_node_space_def)
  have h2: "get_disk_usage (e_fs env_full) data0 > 10"
    by (simp add: env_full_def usage_defs tree_high_def data0_def)
  show ?thesis
    using h1 h2
      preflight_exceeded_no_child [OF h1 h2, of tar_command "''unpacking''" 500 initial]
    by (simp add: initial_def)
qed

section \<open>Quota breach against exit status\<close>

text \<open>
  Claim C2. When the child has been started and exits within the timeout, and
  \<open>stop_thread\<close> is set once the monitor wake-ups of the call have run, the call
  raises \<open>DiskSpaceExceeded\<close> from inside the \<open>try\<close> block whatever the return code is.
\<close>

theorem signal_set_overrides_exit_code:
  assumes "check_available_node_space base (e_df env) (e_fs env) limit_gb = Inr limit"
    and "\<not> get_disk_usage (e_fs env) path_to_check > limit"
    and "c_spawns (e_child env)"
    and "process_wait (e_child env) timeout = Some return_code"
    and "stop_thread (ticks (start_monitor limit path_to_check s) (e_ticks env))"
  shows "fst (run_subprocess base env command process_message limit_gb path_to_check timeout s)
           = Inl (DiskSpaceExceeded During_run)"
proof -
  let ?s1 = "log_disk_usage base (e_fs env) (''Begin: '' @ process_message) s"
  let ?s2 = "start_monitor limit path_to_check ?s1"
  have "?s2 = (start_monitor limit path_to_check s)\<lparr>printed := printed ?s1\<rparr>"
    by (simp add: start_monitor_def log_disk_usage_def)
  then have "stop_thread
      (ticks (?s2\<lparr>procs := procs ?s2 @ [popen command (e_child env)]\<rparr>) (e_ticks env))"
    using assms(5) by (simp add: ticks_procs_update ticks_printed_update)
  then have "fst (run_child base env command process_message timeout ?s2)
      = Inl (DiskSpaceExceeded During_run)"
    using assms(4) by (simp add: run_child_def Let_def on_proc_def)
  then show ?thesis
    using assms(1-3) by (simp add: run_subprocess_def Let_def)
qed

theorem signal_set_overrides_exit_code_witness:
  "check_available_node_space base0 (e_df env_breach) (e_fs env_breach) 10 = Inr 10
   \<and> \<not> get_disk_usage (e_fs env_breach) data0 > 10
   \<and> c_spawns (e_child env_breach)
   \<and> process_wait (e_child env_breach) 500 = Some 0
   \<and> stop_thread (ticks (start_monitor 10 data0 initial) (e_ticks env_breach))
   \<and> fst (run_subprocess base0 env_breach tar_command ''unpacking'' 10 data0 500 initial)
        = Inl (DiskSpaceExceeded During_run)"
proof -
  have h1: "check_available_node_space base0 (e_df env_breach) (e_fs env_breach) 10 = Inr 10"
    by (simp add: env_breach_def usage_defs tree_low_def base0_def
        check_available_node_space_def)
  have h2: "\<not> get_disk_usage (e_fs env_breach) data0 > 10"
    by (simp add: env_breach_def usage_defs tree_low_def data0_def)
  have h3: "c_spawns (e_child env_breach)"
    by (simp add: env_breach_def child_ok_def)
  have h4: "process_wait (e_child env_breach) 500 = Some 0"
    by (simp add: env_breach_def child_ok_def process_wait_def)
  have h5: "stop_thread (ticks (start_monitor 10 data0 initial) (e_ticks env_breach))"
    by (simp add: env_breach_def start_monitor_def initial_def monitor_disk_space_round_def
        usage_defs tree_low_def tree_high_def data0_def)
  show ?thesis
    using h1 h2 h3 h4 h5
      signal_set_overrides_exit_code [OF h1 h2 h3 h4 h5, of tar_command "''unpacking''"]
    by simp
qed

section \<open>Node capacity resolver\<close>

text \<open>
  Claim C3, as stated, bounds the returned limit minus the used amount by the free
  space minus 3 GB. On a node with less than 3 GB free that bound is negative, while
  the code clamps the available space at 0: with no free space (\<open>df\<close> prints \<open>0\<close>),
  5 GB used and a requested 10 GB the limit is 5 GB, and 5 - 5 is not below 0 - 3.
\<close>

theorem node_space_limit_counterexample:
  "check_available_node_space base0 (Some 0) tree_low 10 = Inr 5
   \<and> get_disk_usage tree_low base0 = 5
   \<and> \<not> (5 - get_disk_usage tree_low base0 \<le> of_int (0 - 3))"
  by (simp add: check_available_node_space_def usage_defs tree_low_def base0_def)

text \<open>
  Claim C3, amended. For a requested quota that is a whole number of hundredths of a
  GB, so for every integer, with \<open>available = max (free - 3) 0\<close> and \<open>used\<close> the usage
  of \<open>configs.BASE_PATH\<close>: the returned limit minus \<open>used\<close> is at most \<open>available\<close>;
  the requested quota is returned unchanged when \<open>quota - used\<close> is below \<open>available\<close>,
  and the limit is \<open>used + available\<close> otherwise.
\<close>

theorem node_space_limit_bound:
  "\<exists>L. check_available_node_space base (Some free_gb) fs (of_int q / 100) = Inr L
     \<and> L - get_disk_usage fs base \<le> of_int (max (free_gb - 3) 0)
     \<and> L = (if of_int q / 100 - get_disk_usage fs base < of_int (max (free_gb - 3) 0)
            then of_int q / 100
            else get_disk_usage fs base + of_int (max (free_gb - 3) 0))"
proof -
  obtain k where k: "get_disk_usage fs base = of_int k / 100"
    using get_disk_usage_hundredth by blast
  show ?thesis
    by (simp add: check_available_node_space_def Let_def k)
qed

theorem node_space_limit_bound_witness:
  "\<exists>L. check_available_node_space base0 (Some 13) tree_low (of_int 2000 / 100) = Inr L
     \<and> L - get_disk_usage tree_low base0 \<le> 10
     \<and> L = 15"
proof -
  have u: "get_disk_usage tree_low base0 = 5"
    by (simp add: usage_defs tree_low_def base0_def)
  show ?thesis
    using node_space_limit_bound [of base0 13 tree_low 2000]
    by (simp add: u)
qed

section \<open>Timeout\<close>

text \<open>
  Claim C6, as stated, has the child not alive once the call is over. The handler of
  \<open>TimeoutExpired\<close> calls \<open>process.terminate()\<close>, which sends SIGTERM, and raises again;
  nothing waits for the child or kills it. A child that ignores SIGTERM is alive after
  the call.
\<close>

theorem timeout_child_alive_counterexample:
  "process_wait (e_child env_hang) 500 = None
   \<and> fst (run_subprocess base0 env_hang sleep_command ''sleeping'' 10 data0 500 initial)
        = Inl TimeoutExpired
   \<and> map p_alive (procs (snd (run_subprocess base0 env_hang sleep_command ''sleeping'' 10
        data0 500 initial))) = [True]"
  by (simp add: run_defs usage_defs env_hang_def child_hang_def tree_low_def base0_def
      data0_def initial_def)

text \<open>
  Claim C6, amended. When the child is started and does not exit within the timeout,
  the call raises \<open>TimeoutExpired\<close> after SIGTERM has been sent to the child, which has
  not been waited for; the child is alive after the call exactly when SIGTERM does not
  end it.
\<close>

theorem timeout_sends_sigterm:
  assumes "check_available_node_space base (e_df env) (e_fs env) limit_gb = Inr limit"
    and "\<not> get_disk_usage (e_fs env) path_to_check > limit"
    and "c_spawns (e_child env)"
    and "process_wait (e_child env) timeout = None"
  shows "fst (run_subprocess base env command process_message limit_gb path_to_check timeout s)
           = Inl TimeoutExpired
       \<and> procs (snd (run_subprocess base env command process_message limit_gb path_to_check
             timeout s))
           = procs s @ [\<lparr>p_command = command, p_returncode = None,
                          p_alive = (\<not> c_dies_on_sigterm (e_child env)), p_sigterm = True,
                          p_dies_on_sigterm = c_dies_on_sigterm (e_child env)\<rparr>]"
proof
  show "fst (run_subprocess base env command process_message limit_gb path_to_check timeout s)
          = Inl TimeoutExpired"
    using assms(4) by (simp add: run_subprocess_launched [OF assms(1-3)] run_child_def Let_def)
  show "procs (snd (run_subprocess base env command process_message limit_gb path_to_check
             timeout s))
           = procs s @ [\<lparr>p_command = command, p_returncode = None,
                          p_alive = (\<not> c_dies_on_sigterm (e_child env)), p_sigterm = True,
                          p_dies_on_sigterm = c_dies_on_sigterm (e_child env)\<rparr>]"
    using assms(4)
    by (simp add: run_subprocess_procs_launched [OF assms(1-3)] process_terminate_def popen_def)
qed

theorem timeout_sends_sigterm_witness:
  "check_available_node_space base0 (e_df env_hang) (e_fs env_hang) 10 = Inr 10
   \<and> \<not> get_disk_usage (e_fs env_hang) data0 > 10
   \<and> c_spawns (e_child env_hang)
   \<and> process_wait (e_child env_hang) 500 = None
   \<and> fst (run_subprocess base0 env_hang sleep_command ''sleeping'' 10 data0 500 initial)
        = Inl TimeoutExpired
   \<and> procs (snd (run_subprocess base0 env_hang sleep_command ''sleeping'' 10 data0 500
        initial))
        = [\<lparr>p_command = sleep_command, p_returncode = None, p_alive = True,
            p_sigterm = True, p_dies_on_sigterm = False\<rparr>]"
proof -
  have h1: "check_available_node_space base0 (e_df env_hang) (e_fs env_hang) 10 = Inr 10"
    by (simp add: env_hang_def usage_defs tree_low_def base0_def
        check_available_node_space_def)
  have h2: "\<not> get_disk_usage (e_fs env_hang) data0 > 10"
    by (simp add: env_hang_def usage_defs tree_low_def data0_def)
  have h3: "c_spawns (e_child env_hang)"
    by (simp add: env_hang_def child_hang_def)
  have h4: "process_wait (e_child env_hang) 500 = None"
    by (simp add: env_hang_def child_hang_def process_wait_def)
  have c: "c_dies_on_sigterm (e_child env_hang) = False"
    by (simp add: env_hang_def child_hang_def)
  show ?thesis
    using h1 h2 h3 h4
      timeout_sends_sigterm [OF h1 h2 h3 h4, of sleep_command "''sleeping''" initial]
    by (simp add: initial_def c)
qed

section \<open>Cleanup\<close>

text \<open>
  Claim C5, as stated, has the monitor thread stopped on every exit path. No statement
  of \<open>run_subprocess\<close> stops the thread it started: on the success path the thread is
  still in its loop when the call returns.
\<close>

theorem monitor_running_after_success_counterexample:
  "fst (run_subprocess base0 env_calm tar_command ''unpacking'' 10 data0 500 initial) = Inr ()
   \<and> map m_running (monitors (snd (run_subprocess base0 env_calm tar_command ''unpacking'' 10
        data0 500 initial))) = [True]"
  by (simp add: run_defs usage_defs env_calm_def child_ok_def tree_low_def base0_def
      data0_def initial_def)

text \<open>
  Claim C5, amended. On every exit path after the child is started, the child has
  either exited and been waited for (success, quota exceeded, nonzero exit), or has been
  sent SIGTERM and not been waited for (timeout). The monitor thread of the call is not
  stopped by \<open>run_subprocess\<close>: it runs after the call exactly when none of its own
  rounds during the call sampled a usage at or above the limit.
\<close>

theorem cleanup_after_launch:
  assumes "check_available_node_space base (e_df env) (e_fs env) limit_gb = Inr limit"
    and "\<not> get_disk_usage (e_fs env) path_to_check > limit"
    and "c_spawns (e_child env)"
  shows "procs (snd (run_subprocess base env command process_message limit_gb path_to_check
             timeout s))
           = procs s @
             [case process_wait (e_child env) timeout of
                None \<Rightarrow> \<lparr>p_command = command, p_returncode = None,
                          p_alive = (\<not> c_dies_on_sigterm (e_child env)), p_sigterm = True,
                          p_dies_on_sigterm = c_dies_on_sigterm (e_child env)\<rparr>
              | Some return_code \<Rightarrow>
                  \<lparr>p_command = command, p_returncode = Some return_code,
                   p_alive = False, p_sigterm = False,
                   p_dies_on_sigterm = c_dies_on_sigterm (e_child env)\<rparr>]
       \<and> m_running (monitors (snd (run_subprocess base env command process_message limit_gb
             path_to_check timeout s)) ! length (monitors s))
           = (\<not> list_ex (saw_breach (length (monitors s)) limit path_to_check) (e_ticks env))"
proof -
  have "length (monitors s) < length (monitors (start_monitor limit path_to_check s))"
    by (simp add: start_monitor_def)
  from ticks_running [OF this, of "e_ticks env"]
  have "m_running (monitors (ticks (start_monitor limit path_to_check s) (e_ticks env))
          ! length (monitors s))
        = (\<not> list_ex (saw_breach (length (monitors s)) limit path_to_check) (e_ticks env))"
    by (simp add: start_monitor_def)
  then show ?thesis
    by (simp add: run_subprocess_procs_launched [OF assms] run_subprocess_monitors [OF assms]
        process_terminate_def popen_def reaped_def split: option.split)
qed

theorem cleanup_after_launch_witness:
  "check_available_node_space base0 (e_df env_calm) (e_fs env_calm) 10 = Inr 10
   \<and> \<not> get_disk_usage (e_fs env_calm) data0 > 10
   \<and> c_spawns (e_child env_calm)
   \<and> procs (snd (run_subprocess base0 env_calm tar_command ''unpacking'' 10 data0 500
        initial))
        = [\<lparr>p_command = tar_command, p_returncode = Some 0, p_alive = False,
            p_sigterm = False, p_dies_on_sigterm = True\<rparr>]
   \<and> m_running (monitors (snd (run_subprocess base0 env_calm tar_command ''unpacking'' 10
        data0 500 initial)) ! 0)"
proof -
  have h1: "check_available_node_space base0 (e_df env_calm) (e_fs env_calm) 10 = Inr 10"
    by (simp add: env_calm_def usage_defs tree_low_def base0_def
        check_available_node_space_def)
  have h2: "\<not> get_disk_usage (e_fs env_calm) data0 > 10"
    by (simp add: env_calm_def usage_defs tree_low_def data0_def)
  have h3: "c_spawns (e_child env_calm)"
    by (simp add: env_calm_def child_ok_def)
  have w: "process_wait (e_child env_calm) 500 = Some 0"
    "c_dies_on_sigterm (e_child env_calm) = True"
    by (simp_all add: env_calm_def child_ok_def process_wait_def)
  have q: "\<not> list_ex (saw_breach 0 10 data0) (e_ticks env_calm)"
    by (simp add: env_calm_def usage_defs tree_low_def data0_def)
  show ?thesis
    using h1 h2 h3 q
      cleanup_after_launch [OF h1 h2 h3, of tar_command "''unpacking''" 500 initial]
    by (simp add: initial_def w)
qed

section \<open>The module-level flag\<close>

text \<open>
  Claim C9. Once \<open>stop_thread\<close> is set, a monitor round leaves it set and so does
  \<open>run_subprocess\<close>; and every later call whose child is started and exits within the
  timeout raises \<open>DiskSpaceExceeded\<close> from inside the \<open>try\<close> block, whatever the file
  trees of that call are.
\<close>

theorem flag_never_cleared:
  assumes "stop_thread s"
  shows "stop_thread (tick s ev)
     \<and> stop_thread (snd (run_subprocess base env command process_message limit_gb
          path_to_check timeout s))
     \<and> (check_available_node_space base (e_df env) (e_fs env) limit_gb = Inr limit
          \<longrightarrow> \<not> get_disk_usage (e_fs env) path_to_check > limit
          \<longrightarrow> c_spawns (e_child env)
          \<longrightarrow> process_wait (e_child env) timeout = Some return_code
          \<longrightarrow> fst (run_subprocess base env command process_message limit_gb path_to_check
                 timeout s) = Inl (DiskSpaceExceeded During_run))"
proof (intro conjI impI)
  show "stop_thread (tick s ev)"
    using assms by (rule tick_keeps_flag)
  show "stop_thread (snd (run_subprocess base env command process_message limit_gb
          path_to_check timeout s))"
    using assms by (rule run_subprocess_keeps_flag)
next
  assume h: "check_available_node_space base (e_df env) (e_fs env) limit_gb = Inr limit"
    "\<not> get_disk_usage (e_fs env) path_to_check > limit"
    "c_spawns (e_child env)"
    and w: "process_wait (e_child env) timeout = Some return_code"
  show "fst (run_subprocess base env command process_message limit_gb path_to_check
      timeout s) = Inl (DiskSpaceExceeded During_run)"
    using assms h w by (rule flagged_call_fails)
qed

theorem flag_never_cleared_witness:
  "stop_thread flagged
   \<and> check_available_node_space base0 (e_df env_later) (e_fs env_later) 10 = Inr 10
   \<and> \<not> get_disk_usage (e_fs env_later) data0 > 10
   \<and> c_spawns (e_child env_later)
   \<and> process_wait (e_child env_later) 500 = Some 0
   \<and> stop_thread (tick flagged (Tick 1 tree_low))
   \<and> stop_thread (snd (run_subprocess base0 env_later tar_command ''unpacking'' 10 data0 500
        flagged))
   \<and> fst (run_subprocess base0 env_later tar_command ''unpacking'' 10 data0 500 flagged)
        = Inl (DiskSpaceExceeded During_run)"
proof -
  have h0: "stop_thread flagged"
    by (simp add: flagged_def)
  have h1: "check_available_node_space base0 (e_df env_later) (e_fs env_later) 10 = Inr 10"
    by (simp add: env_later_def usage_defs tree_low_def base0_def
        check_available_node_space_def)
  have h2: "\<not> get_disk_usage (e_fs env_later) data0 > 10"
    by (simp add: env_later_def usage_defs tree_low_def data0_def)
  have h3: "c_spawns (e_child env_later)"
    by (simp add: env_later_def child_ok_def)
  have h4: "process_wait (e_child env_later) 500 = Some 0"
    by (simp add: env_later_def child_ok_def process_wait_def)
  show ?thesis
    using h0 h1 h2 h3 h4
      flag_never_cleared [OF h0, of "Tick 1 tree_low" base0 env_later tar_command
        "''unpacking''" 10 data0 500 10 0]
    by blast
qed

section \<open>The quota boundary\<close>

text \<open>
  Claim C10. When the usage of \<open>path_to_check\<close> equals the resolved limit, the
  pre-flight check passes and the child is started, while a monitor round on the same
  usage sets \<open>stop_thread\<close> and ends the thread; when the first wake-up during the call
  is that of its own monitor on the same file tree, the flag is set when the call is
  over.
\<close>

theorem boundary_asymmetry:
  assumes "check_available_node_space base (e_df env) (e_fs env) limit_gb = Inr limit"
    and "get_disk_usage (e_fs env) path_to_check = limit"
    and "c_spawns (e_child env)"
  shows "fst (run_subprocess base env command process_message limit_gb path_to_check timeout s)
           \<noteq> Inl (DiskSpaceExceeded Before_start)
       \<and> length (procs (snd (run_subprocess base env command process_message limit_gb
             path_to_check timeout s))) = Suc (length (procs s))
       \<and> monitor_disk_space_round (e_fs env)
             \<lparr>m_limit = limit, m_path = path_to_check, m_running = True\<rparr>
           = (True, \<lparr>m_limit = limit, m_path = path_to_check, m_running = False\<rparr>)
       \<and> (e_ticks env = Tick (length (monitors s)) (e_fs env) # rest
            \<longrightarrow> stop_thread (snd (run_subprocess base env command process_message limit_gb
                   path_to_check timeout s)))"
proof -
  have pre: "\<not> get_disk_usage (e_fs env) path_to_check > limit"
    using assms(2) by simp
  note launched = run_subprocess_launched [OF assms(1) pre assms(3)]
  have "fst (run_subprocess base env command process_message limit_gb path_to_check timeout s)
           \<noteq> Inl (DiskSpaceExceeded Before_start)"
    by (simp add: launched run_child_def Let_def split: option.split)
  moreover have "length (procs (snd (run_subprocess base env command process_message limit_gb
             path_to_check timeout s))) = Suc (length (procs s))"
    by (simp add: run_subprocess_procs_launched [OF assms(1) pre assms(3)])
  moreover have "monitor_disk_space_round (e_fs env)
             \<lparr>m_limit = limit, m_path = path_to_check, m_running = True\<rparr>
           = (True, \<lparr>m_limit = limit, m_path = path_to_check, m_running = False\<rparr>)"
    using assms(2) by (simp add: monitor_disk_space_round_def)
  moreover have "stop_thread (snd (run_subprocess base env command process_message limit_gb
                   path_to_check timeout s))"
    if "e_ticks env = Tick (length (monitors s)) (e_fs env) # rest"
  proof -
    have "stop_thread (tick (start_monitor limit path_to_check s)
        (Tick (length (monitors s)) (e_fs env)))"
      using assms(2) by (simp add: start_monitor_def monitor_disk_space_round_def)
    then have "stop_thread (ticks (start_monitor limit path_to_check s) (e_ticks env))"
      unfolding that ticks_Cons by (rule ticks_keep_flag)
    then show ?thesis
      by (simp add: run_subprocess_stop_thread [OF assms(1) pre assms(3)])
  qed
  ultimately show ?thesis
    by blast
qed

theorem boundary_asymmetry_witness:
  "check_available_node_space base0 (e_df env_edge) (e_fs env_edge) 10 = Inr 10
   \<and> get_disk_usage (e_fs env_edge) data0 = 10
   \<and> c_spawns (e_child env_edge)
   \<and> e_ticks env_edge = Tick (length (monitors initial)) (e_fs env_edge) # []
   \<and> fst (run_subprocess base0 env_edge tar_command ''unpacking'' 10 data0 500 initial)
        \<noteq> Inl (DiskSpaceExceeded Before_start)
   \<and> length (procs (snd (run_subprocess base0 env_edge tar_command ''unpacking'' 10 data0 500
        initial))) = 1
   \<and> stop_thread (snd (run_subprocess base0 env_edge tar_command ''unpacking'' 10 data0 500
        initial))"
proof -
  have h1: "check_available_node_space base0 (e_df env_edge) (e_fs env_edge) 10 = Inr 10"
    by (simp add: env_edge_def usage_defs tree_edge_def base0_def
        check_available_node_space_def)
  have h2: "get_disk_usage (e_fs env_edge) data0 = 10"
    by (simp add: env_edge_def usage_defs tree_edge_def data0_def)
  have h3: "c_spawns (e_child env_edge)"
    by (simp add: env_edge_def child_ok_def)
  have h4: "e_ticks env_edge = Tick (length (monitors initial)) (e_fs env_edge) # []"
    by (simp add: env_edge_def initial_def)
  show ?thesis
    using h1 h2 h3 h4
      boundary_asymmetry [OF h1 h2 h3, of tar_command "''unpacking''" 500 initial "[]"]
    by (simp add: initial_def)
qed

section \<open>Which directory tree is measured\<close>

text \<open>
  Claim C7, as stated, has the resolver measure the watched path.
  \<open>check_available_node_space\<close> calls \<open>get_disk_usage()\<close> without an argument, so it
  measures \<open>configs.BASE_PATH\<close>. Two file trees with the same 1 GB below the watched
  \<open>srv/data\<close> resolve a requested 20 GB to different limits on a node with 13 GB
  free: 11 GB when nothing else lies below \<open>srv\<close>, 15 GB when \<open>srv\<close> holds 5 GB.
\<close>

theorem resolver_ignores_watched_path_counterexample:
  "get_disk_usage tree_low data0 = get_disk_usage tree_data_only data0
   \<and> check_available_node_space base0 (Some 13) tree_data_only 20 = Inr 11
   \<and> check_available_node_space base0 (Some 13) tree_low 20 = Inr 15
   \<and> get_disk_usage tree_low base0 = 5
   \<and> get_disk_usage tree_low data0 = 1"
  by (simp add: check_available_node_space_def usage_defs tree_low_def tree_data_only_def
      base0_def data0_def)

text \<open>
  Claim C7, amended. The resolver computes the used amount as the usage of
  \<open>configs.BASE_PATH\<close>, whatever \<open>path_to_check\<close> is; the pre-flight check and the
  monitor measure \<open>path_to_check\<close>. So the resolved limit depends on the file tree
  through the usage of \<open>BASE_PATH\<close> alone, the whole call through the usages of
  \<open>BASE_PATH\<close> and of \<open>path_to_check\<close> alone, and the monitor is started on
  \<open>path_to_check\<close> with the resolved limit.
\<close>

theorem measured_trees:
  assumes "get_disk_usage fs' base = get_disk_usage (e_fs env) base"
  shows "check_available_node_space base (e_df env) fs' limit_gb
           = check_available_node_space base (e_df env) (e_fs env) limit_gb
       \<and> (get_disk_usage fs' path_to_check = get_disk_usage (e_fs env) path_to_check
            \<longrightarrow> run_subprocess base (env\<lparr>e_fs := fs'\<rparr>) command process_message limit_gb
                   path_to_check timeout s
                = run_subprocess base env command process_message limit_gb path_to_check
                   timeout s)
       \<and> (check_available_node_space base (e_df env) (e_fs env) limit_gb = Inr limit
            \<longrightarrow> \<not> get_disk_usage (e_fs env) path_to_check > limit
            \<longrightarrow> monitors (snd (run_subprocess base (env\<lparr>e_ticks := []\<rparr>) command
                   process_message limit_gb path_to_check timeout s))
                = monitors s @ [\<lparr>m_limit = limit, m_path = path_to_check, m_running = True\<rparr>])"
proof (intro conjI impI)
  show r: "check_available_node_space base (e_df env) fs' limit_gb
      = check_available_node_space base (e_df env) (e_fs env) limit_gb"
    using assms by (rule resolver_reads_base_usage)
  show "run_subprocess base (env\<lparr>e_fs := fs'\<rparr>) command process_message limit_gb
          path_to_check timeout s
        = run_subprocess base env command process_message limit_gb path_to_check timeout s"
    if "get_disk_usage fs' path_to_check = get_disk_usage (e_fs env) path_to_check"
    using that assms r
    by (simp add: run_subprocess_def run_child_def log_disk_usage_def Let_def
        split: sum.split option.split)
  show "monitors (snd (run_subprocess base (env\<lparr>e_ticks := []\<rparr>) command
                   process_message limit_gb path_to_check timeout s))
                = monitors s @ [\<lparr>m_limit = limit, m_path = path_to_check, m_running = True\<rparr>]"
    if "check_available_node_space base (e_df env) (e_fs env) limit_gb = Inr limit"
      and "\<not> get_disk_usage (e_fs env) path_to_check > limit"
    using that
    by (simp add: run_subprocess_def run_child_def log_disk_usage_def Let_def start_monitor_def
        on_proc_def split: option.split)
qed

theorem measured_trees_witness:
  "get_disk_usage tree_moved base0 = get_disk_usage (e_fs env_calm) base0
   \<and> get_disk_usage tree_moved data0 = get_disk_usage (e_fs env_calm) data0
   \<and> check_available_node_space base0 (e_df env_calm) (e_fs env_calm) 10 = Inr 10
   \<and> \<not> get_disk_usage (e_fs env_calm) data0 > 10
   \<and> check_available_node_space base0 (e_df env_calm) tree_moved 10 = Inr 10
   \<and> run_subprocess base0 (env_calm\<lparr>e_fs := tree_moved\<rparr>) tar_command ''unpacking'' 10 data0
        500 initial
      = run_subprocess base0 env_calm tar_command ''unpacking'' 10 data0 500 initial
   \<and> monitors (snd (run_subprocess base0 (env_calm\<lparr>e_ticks := []\<rparr>) tar_command
        ''unpacking'' 10 data0 500 initial))
      = [\<lparr>m_limit = 10, m_path = data0, m_running = True\<rparr>]"
proof -
  have h0: "get_disk_usage tree_moved base0 = get_disk_usage (e_fs env_calm) base0"
    by (simp add: env_calm_def usage_defs tree_low_def tree_moved_def base0_def)
  have h1: "get_disk_usage tree_moved data0 = get_disk_usage (e_fs env_calm) data0"
    by (simp add: env_calm_def usage_defs tree_low_def tree_moved_def data0_def)
  have h2: "check_available_node_space base0 (e_df env_calm) (e_fs env_calm) 10 = Inr 10"
    by (simp add: env_calm_def usage_defs tree_low_def base0_def
        check_available_node_space_def)
  have h3: "\<not> get_disk_usage (e_fs env_calm) data0 > 10"
    by (simp add: env_calm_def usage_defs tree_low_def data0_def)
  show ?thesis
    using h0 h1 h2 h3
      measured_trees [OF h0, of 10 data0 tar_command "''unpacking''" 500 initial 10]
    by (simp add: initial_def)
qed

section \<open>Rounded figures in the comparisons\<close>

text \<open>
  Claim C8, as stated, has every quota comparison use the full-precision byte total.
  \<open>get_disk_usage\<close> returns the rounded figure and every comparison uses what it
  returns: with 1 GB and 5 000 000 bytes below the watched path and a limit of 1 GB,
  the full-precision usage is above the limit, the pre-flight check passes and the
  child is started.
\<close>

theorem rounded_usage_in_preflight_counterexample:
  "real (disk_bytes tree_over data0) / 1024 ^ 3 > 1
   \<and> check_available_node_space base0 (e_df env_over) (e_fs env_over) 1 = Inr 1
   \<and> get_disk_usage tree_over data0 = 1
   \<and> fst (run_subprocess base0 env_over tar_command ''unpacking'' 1 data0 500 initial) = Inr ()
   \<and> length (procs (snd (run_subprocess base0 env_over tar_command ''unpacking'' 1 data0 500
        initial))) = 1"
  by (simp add: run_defs usage_defs env_over_def child_ok_def tree_over_def base0_def
      data0_def initial_def)

text \<open>
  Claim C8, amended. The two-decimal rounding is part of \<open>get_disk_usage\<close>, and the
  monitor, the pre-flight check, the resolver and the printed lines all use the rounded
  figure, which is within 0.005 GB of the full-precision one.
\<close>

theorem comparisons_use_rounded_usage:
  "fst (monitor_disk_space_round fs m)
     = (round2 (real (disk_bytes fs (m_path m)) / 1024 ^ 3) \<ge> m_limit m)
   \<and> (check_available_node_space base (e_df env) (e_fs env) limit_gb = Inr limit
        \<longrightarrow> (fst (run_subprocess base env command process_message limit_gb path_to_check
                timeout s) = Inl (DiskSpaceExceeded Before_start))
             = (round2 (real (disk_bytes (e_fs env) path_to_check) / 1024 ^ 3) > limit))
   \<and> (round2 (real (disk_bytes fs' base) / 1024 ^ 3)
         = round2 (real (disk_bytes fs base) / 1024 ^ 3)
        \<longrightarrow> check_available_node_space base df fs' limit_gb
             = check_available_node_space base df fs limit_gb)
   \<and> \<bar>get_disk_usage fs p - real (disk_bytes fs p) / 1024 ^ 3\<bar> \<le> 1 / 200
   \<and> printed (log_disk_usage base fs process_message s)
       = printed s @ [(process_message, round2 (real (disk_bytes fs base) / 1024 ^ 3))]"
proof (intro conjI impI)
  show "fst (monitor_disk_space_round fs m)
     = (round2 (real (disk_bytes fs (m_path m)) / 1024 ^ 3) \<ge> m_limit m)"
    by (simp add: monitor_disk_space_round_def get_disk_usage_def)
  show "(fst (run_subprocess base env command process_message limit_gb path_to_check
                timeout s) = Inl (DiskSpaceExceeded Before_start))
             = (round2 (real (disk_bytes (e_fs env) path_to_check) / 1024 ^ 3) > limit)"
    if "check_available_node_space base (e_df env) (e_fs env) limit_gb = Inr limit"
    using that
    by (simp add: run_subprocess_def run_child_def Let_def get_disk_usage_def
        split: option.split)
  show "check_available_node_space base df fs' limit_gb
             = check_available_node_space base df fs limit_gb"
    if "round2 (real (disk_bytes fs' base) / 1024 ^ 3)
         = round2 (real (disk_bytes fs base) / 1024 ^ 3)"
    using that by (intro resolver_reads_base_usage) (simp add: get_disk_usage_def)
  show "\<bar>get_disk_usage fs p - real (disk_bytes fs p) / 1024 ^ 3\<bar> \<le> 1 / 200"
    unfolding get_disk_usage_def by (rule round2_close)
  show "printed (log_disk_usage base fs process_message s)
       = printed s @ [(process_message, round2 (real (disk_bytes fs base) / 1024 ^ 3))]"
    by (simp add: log_disk_usage_def get_disk_usage_def)
qed

theorem comparisons_use_rounded_usage_witness:
  "check_available_node_space base0 (e_df env_over) (e_fs env_over) 1 = Inr 1
   \<and> round2 (real (disk_bytes tree_data_only base0) / 1024 ^ 3)
       = round2 (real (disk_bytes tree_over base0) / 1024 ^ 3)
   \<and> fst (run_subprocess base0 env_over tar_command ''unpacking'' 1 data0 500 initial)
       \<noteq> Inl (DiskSpaceExceeded Before_start)
   \<and> check_available_node_space base0 (Some 50) tree_data_only 1
       = check_available_node_space base0 (Some 50) tree_over 1
   \<and> fst (monitor_disk_space_round tree_over
        \<lparr>m_limit = 1, m_path = data0, m_running = True\<rparr>)"
proof -
  have h1: "check_available_node_space base0 (e_df env_over) (e_fs env_over) 1 = Inr 1"
    by (simp add: env_over_def usage_defs tree_over_def base0_def
        check_available_node_space_def)
  have h2: "round2 (real (disk_bytes tree_data_only base0) / 1024 ^ 3)
       = round2 (real (disk_bytes tree_over base0) / 1024 ^ 3)"
    by (simp add: usage_defs tree_over_def tree_data_only_def base0_def)
  have h3: "round2 (real (disk_bytes (e_fs env_over) data0) / 1024 ^ 3) = 1"
    "round2 (real (disk_bytes tree_over data0) / 1024 ^ 3) = 1"
    by (simp_all add: env_over_def usage_defs tree_over_def data0_def)
  show ?thesis
    using h1 h2 h3
      comparisons_use_rounded_usage [where fs = tree_over
        and m = "\<lparr>m_limit = 1, m_path = data0, m_running = True\<rparr>" and base = base0
        and env = env_over and limit_gb = 1 and limit = 1 and command = tar_command
        and process_message = "''unpacking''" and path_to_check = data0 and timeout = 500
        and s = initial and fs' = tree_data_only and df = "Some 50" and p = data0]
    by simp
qed

section \<open>One flag for every call\<close>

text \<open>
  Claim C4 asks for a cancellation signal that is unset at the start of every call and
  not shared between calls. \<open>stop_thread\<close> is one module-level event that nothing
  clears. After a first call whose monitor saw 12 GB against a limit of 10 GB, the flag
  is set; a second call during which the watched path holds 1 GB throughout, and whose
  child returns 0, raises \<open>DiskSpaceExceeded\<close>.
\<close>

theorem shared_flag_fails_later_call:
  "stop_thread (snd (run_subprocess base0 env_breach tar_command ''unpacking a'' 10 data0 500
      initial))
   \<and> get_disk_usage (e_fs env_later) data0 = 1
   \<and> get_disk_usage (e_fs_end env_later) data0 = 1
   \<and> c_returncode (e_child env_later) = 0
   \<and> fst (run_subprocess base0 env_later tar_command ''unpacking b'' 10 data0 500
        (snd (run_subprocess base0 env_breach tar_command ''unpacking a'' 10 data0 500
           initial)))
      = Inl (DiskSpaceExceeded During_run)"
proof -
  have a1: "check_available_node_space base0 (e_df env_breach) (e_fs env_breach) 10 = Inr 10"
    by (simp add: env_breach_def usage_defs tree_low_def base0_def
        check_available_node_space_def)
  have a2: "\<not> get_disk_usage (e_fs env_breach) data0 > 10"
    by (simp add: env_breach_def usage_defs tree_low_def data0_def)
  have a3: "c_spawns (e_child env_breach)"
    by (simp add: env_breach_def child_ok_def)
  have a4: "stop_thread (ticks (start_monitor 10 data0 initial) (e_ticks env_breach))"
    by (simp add: env_breach_def start_monitor_def initial_def monitor_disk_space_round_def
        usage_defs tree_low_def tree_high_def data0_def)
  have first: "stop_thread (snd (run_subprocess base0 env_breach tar_command ''unpacking a''
      10 data0 500 initial))"
    using a4 by (simp only: run_subprocess_stop_thread [OF a1 a2 a3])
  have b1: "check_available_node_space base0 (e_df env_later) (e_fs env_later) 10 = Inr 10"
    by (simp add: env_later_def usage_defs tree_low_def base0_def
        check_available_node_space_def)
  have u: "get_disk_usage (e_fs env_later) data0 = 1"
    "get_disk_usage (e_fs_end env_later) data0 = 1"
    by (simp_all add: env_later_def usage_defs tree_low_def data0_def)
  have b2: "\<not> get_disk_usage (e_fs env_later) data0 > 10"
    by (simp add: u)
  have b3: "c_spawns (e_child env_later)" "c_returncode (e_child env_later) = 0"
    by (simp_all add: env_later_def child_ok_def)
  have b4: "process_wait (e_child env_later) 500 = Some 0"
    by (simp add: env_later_def child_ok_def process_wait_def)
  show ?thesis
    using first u b3(2) flagged_call_fails [OF first b1 b2 b3(1) b4]
    by (simp only: simp_thms)
qed

end
